theory Spec2Isabelle
  imports Complex_Main
begin

section \<open>Liquidity arithmetic of a concentrated position\<close>

text \<open>
  The source is \<^verbatim>\<open>backtest.py\<close>. Its floating-point numbers are modelled as real
  numbers, so rounding and overflow are left out, except in \<open>mint_position_f64\<close>
  below, which rounds every operation to a double; its Python integers (ticks, spacing,
  tick offsets) are \<^typ>\<open>int\<close>. A comparison used as a factor
  (\<^verbatim>\<open>lower_price*(pool_price<=lower_price)\<close>) is \<^const>\<open>of_bool\<close>.

  Modelled: \<^verbatim>\<open>get_quantities\<close>, \<^verbatim>\<open>mint_position\<close> and the loop of \<^verbatim>\<open>backtest\<close>
  (lines 69--210), with the writes of lines 193--210 taken to update the table.
  Not modelled: reading and resampling the swaps (lines 45--48, 256--257), the columns
  derived after the loop (lines 212--247), the metrics and the plots.
\<close>

definition get_quantities :: "real \<Rightarrow> real \<Rightarrow> real \<Rightarrow> real \<Rightarrow> real \<times> real" where
  "get_quantities liquidity lower_price upper_price pool_price =
     (let conditional_price =
            lower_price * of_bool (pool_price \<le> lower_price)
          + pool_price * of_bool (lower_price < pool_price \<and> pool_price < upper_price)
          + upper_price * of_bool (upper_price \<le> pool_price);
          x = liquidity * (1 / sqrt conditional_price - 1 / sqrt upper_price);
          y = liquidity * (sqrt conditional_price - sqrt lower_price)
      in (x, y))"

text \<open>
  \<^verbatim>\<open>mint_position\<close> returns \<^verbatim>\<open>(position_liquidity, position_x, position_y)\<close>.
  The three branches are those of the source, in its order, over the real numbers. The
  divisors are nonzero in the first branch; in the other two they vanish exactly when the
  two bound prices are equal, which the statements below exclude.
\<close>

definition mint_position :: "real \<Rightarrow> real \<Rightarrow> real \<Rightarrow> real \<Rightarrow> real \<Rightarrow> real \<times> real \<times> real" where
  "mint_position x y lower_price upper_price pool_price =
     (if lower_price < pool_price \<and> pool_price < upper_price then
        (let position_y = y;
             position_liquidity = position_y / (sqrt pool_price - sqrt lower_price);
             position_x = position_liquidity * (1 / sqrt pool_price - 1 / sqrt upper_price)
         in if x < position_x then
              (let position_x = x;
                   position_liquidity = position_x / (1 / sqrt pool_price - 1 / sqrt upper_price);
                   position_y = position_liquidity * (sqrt pool_price - sqrt lower_price)
               in (position_liquidity, position_x, position_y))
            else (position_liquidity, position_x, position_y))
      else if pool_price \<le> lower_price then
        (let position_x = x;
             position_liquidity = position_x / (1 / sqrt lower_price - 1 / sqrt upper_price);
             position_y = 0
         in (position_liquidity, position_x, position_y))
      else
        (let position_y = y;
             position_liquidity = position_y / (sqrt upper_price - sqrt lower_price);
             position_x = 0
         in (position_liquidity, position_x, position_y)))"


text \<open>
  The program computes in IEEE double precision. \<open>f64\<close> rounds a real number to the
  nearest double, ties to the even significand: the exponent is that of the number, the
  unit in the last place is \<open>2\<close> to the exponent minus \<open>52\<close>. Overflow and subnormal
  numbers are left out, so it is the double for magnitudes between \<open>2 powi (- 1022)\<close>
  and the largest double. Every operation of numpy and Python used here (\<^verbatim>\<open>+\<close>, \<^verbatim>\<open>-\<close>,
  \<^verbatim>\<open>*\<close>, \<^verbatim>\<open>/\<close>, \<^verbatim>\<open>sqrt\<close>) returns the exact result rounded this way.
\<close>

definition round_half_even :: "real \<Rightarrow> int" where
  "round_half_even r =
     (let f = \<lfloor>r\<rfloor>
      in if r - of_int f < 1 / 2 then f
         else if 1 / 2 < r - of_int f then f + 1
         else if even f then f else f + 1)"

definition f64 :: "real \<Rightarrow> real" where
  "f64 r =
     (if r = 0 then 0
      else (let e = \<lfloor>log 2 \<bar>r\<bar>\<rfloor>;
                ulp = 2 powi (e - 52)
            in sgn r * (of_int (round_half_even (\<bar>r\<bar> / ulp)) * ulp)))"

text \<open>
  \<^verbatim>\<open>mint_position\<close> as the program evaluates it on doubles: the same branches, each
  operation rounded. Its arguments are doubles.
\<close>

definition mint_position_f64 :: "real \<Rightarrow> real \<Rightarrow> real \<Rightarrow> real \<Rightarrow> real \<Rightarrow> real \<times> real \<times> real" where
  "mint_position_f64 x y lower_price upper_price pool_price =
     (if lower_price < pool_price \<and> pool_price < upper_price then
        (let position_y = y;
             position_liquidity =
               f64 (position_y / f64 (f64 (sqrt pool_price) - f64 (sqrt lower_price)));
             position_x =
               f64 (position_liquidity
                    * f64 (f64 (1 / f64 (sqrt pool_price)) - f64 (1 / f64 (sqrt upper_price))))
         in if x < position_x then
              (let position_x = x;
                   position_liquidity =
                     f64 (position_x
                          / f64 (f64 (1 / f64 (sqrt pool_price))
                                 - f64 (1 / f64 (sqrt upper_price))));
                   position_y =
                     f64 (position_liquidity
                          * f64 (f64 (sqrt pool_price) - f64 (sqrt lower_price)))
               in (position_liquidity, position_x, position_y))
            else (position_liquidity, position_x, position_y))
      else if pool_price \<le> lower_price then
        (let position_x = x;
             position_liquidity =
               f64 (position_x
                    / f64 (f64 (1 / f64 (sqrt lower_price)) - f64 (1 / f64 (sqrt upper_price))));
             position_y = 0
         in (position_liquidity, position_x, position_y))
      else
        (let position_y = y;
             position_liquidity =
               f64 (position_y / f64 (f64 (sqrt upper_price) - f64 (sqrt lower_price)));
             position_x = 0
         in (position_liquidity, position_x, position_y)))"


section \<open>The simulation step\<close>

subsection \<open>Parameters, table columns and local variables\<close>

text \<open>
  The module-level parameters of the source (lines 249--271) are the fields of
  \<open>config\<close>; \<open>source_config\<close> holds the values the source assigns.
\<close>

record config =
  decimals_x :: int
  decimals_y :: int
  spacing :: int
  start_value :: real
  delta_threshold :: real
  base_lower_bound_ticks :: int
  base_upper_bound_ticks :: int
  base_lower_trigger_ticks :: int
  base_upper_trigger_ticks :: int
  limit_bound_ticks :: int
  limit_trigger_ticks :: int
  liquidation_threshold :: real
  lending_apy :: real
  borrowing_apy :: real

definition source_config :: config where
  "source_config =
     \<lparr> decimals_x = 18, decimals_y = 6, spacing = 60, start_value = 1,
       delta_threshold = 1 / 10,
       base_lower_bound_ticks = 300, base_upper_bound_ticks = 300,
       base_lower_trigger_ticks = - 30, base_upper_trigger_ticks = - 30,
       limit_bound_ticks = 400, limit_trigger_ticks = 150,
       liquidation_threshold = 8 / 10, lending_apy = 5 / 100, borrowing_apy = 2 / 100 \<rparr>"

text \<open>
  \<open>state\<close> holds the columns that iteration \<open>i\<close> writes at row \<open>i + 1\<close> and that
  iteration \<open>i + 1\<close> reads back (lines 195--210). Every column starts at \<open>0\<close>
  (lines 50--67).
\<close>

record state =
  outside_x :: real
  outside_y :: real
  base_lower_bound_tick :: int
  base_upper_bound_tick :: int
  base_liquidity :: real
  limit_lower_bound_tick :: int
  limit_upper_bound_tick :: int
  limit_liquidity :: real
  lent :: real
  borrowed :: real

definition initial_state :: state where
  "initial_state =
     \<lparr> outside_x = 0, outside_y = 0,
       base_lower_bound_tick = 0, base_upper_bound_tick = 0, base_liquidity = 0,
       limit_lower_bound_tick = 0, limit_upper_bound_tick = 0, limit_liquidity = 0,
       lent = 0, borrowed = 0 \<rparr>"

text \<open>A row of \<^verbatim>\<open>swaps\<close>: the columns the loop reads.\<close>

record swap =
  swap_tick :: int
  swap_liquidity :: real
  swap_fees_x :: real
  swap_fees_y :: real

text \<open>The value of \<^verbatim>\<open>reason\<close>; Python's \<^verbatim>\<open>None\<close> is \<^const>\<open>None\<close>.\<close>

datatype reason = Limit_trigger | Base_trigger | Delta | Initialization

text \<open>
  \<open>locals\<close> holds the local variables of one iteration as they stand when line 150 is
  reached (the variables that \<open>state\<close> holds apart). Its fields \<open>fees_x\<close>, \<open>fees_y\<close>,
  the four trigger ticks, \<open>rebalance\<close> and \<open>reason\<close> are what the iteration writes at
  row \<open>i\<close> (lines 193--208).
\<close>

record locals =
  pool_tick :: int
  pool_price :: real
  base_x :: real
  base_y :: real
  limit_x :: real
  limit_y :: real
  fees_x :: real
  fees_y :: real
  base_lower_trigger_tick :: int
  base_upper_trigger_tick :: int
  base_triggered :: bool
  limit_lower_trigger_tick :: int
  limit_upper_trigger_tick :: int
  limit_triggered :: bool
  delta :: real
  current_position :: int
  target_position :: int
  rebalance :: bool
  reason :: "reason option"

text \<open>
  The only exception an iteration can raise: \<^verbatim>\<open>887272//spacing\<close> on line 124 is a
  division of Python integers, which raises when \<^verbatim>\<open>spacing\<close> is \<open>0\<close>.
\<close>

datatype py_error = ZeroDivisionError

subsection \<open>Prices, triggers and the hedge\<close>

text \<open>\<^verbatim>\<open>1.0001**tick/10**(decimals_y-decimals_x)\<close>, written inline in the source.\<close>

definition price_of_tick :: "config \<Rightarrow> int \<Rightarrow> real" where
  "price_of_tick c tick = (10001 / 10000) powi tick / 10 powi (decimals_y c - decimals_x c)"

text \<open>\<^verbatim>\<open>not lower_trigger_tick<=pool_tick<upper_trigger_tick\<close> (lines 106 and 111).\<close>

definition triggered :: "int \<Rightarrow> int \<Rightarrow> int \<Rightarrow> bool" where
  "triggered lower_trigger_tick upper_trigger_tick tick =
     (\<not> (lower_trigger_tick \<le> tick \<and> tick < upper_trigger_tick))"

text \<open>
  \<^verbatim>\<open>delta/borrowed\<close> (line 125) divides two numpy floats: a zero divisor raises nothing
  (the warning is silenced on line 7) and gives \<open>nan\<close> for \<open>0/0\<close>, an infinity
  otherwise. A comparison with \<open>nan\<close> is false.
\<close>

datatype npfloat = Finite real | PosInf | NegInf | NaN

definition np_divide :: "real \<Rightarrow> real \<Rightarrow> npfloat" where
  "np_divide a b =
     (if b \<noteq> 0 then Finite (a / b)
      else if a = 0 then NaN
      else if 0 < a then PosInf
      else NegInf)"

fun np_less :: "npfloat \<Rightarrow> npfloat \<Rightarrow> bool" where
  "np_less NaN _ = False"
| "np_less _ NaN = False"
| "np_less (Finite a) (Finite b) = (a < b)"
| "np_less (Finite a) PosInf = True"
| "np_less (Finite a) NegInf = False"
| "np_less PosInf _ = False"
| "np_less NegInf NegInf = False"
| "np_less NegInf _ = True"

text \<open>Lines 129--145: each later condition overwrites what an earlier one set.\<close>

definition check_for_rebalance :: "bool \<Rightarrow> bool \<Rightarrow> bool \<Rightarrow> bool \<Rightarrow> bool \<times> reason option" where
  "check_for_rebalance limit_trig base_trig position_differs first_step =
     (let rebalance = False;
          reason = None;
          (rebalance, reason) =
             (if limit_trig then (True, Some Limit_trigger) else (rebalance, reason));
          (rebalance, reason) =
             (if base_trig then (True, Some Base_trigger) else (rebalance, reason));
          (rebalance, reason) =
             (if position_differs then (True, Some Delta) else (rebalance, reason));
          (rebalance, reason) =
             (if first_step then (True, Some Initialization) else (rebalance, reason))
      in (rebalance, reason))"

text \<open>
  Lines 71--149. The second component is the state with \<open>outside_x\<close>, \<open>outside_y\<close>,
  \<open>lent\<close> and \<open>borrowed\<close> as the local variables of these names stand at line 150,
  immediately before the burn. A swap whose \<^verbatim>\<open>gamma_liquidity + liquidity\<close> is \<open>0\<close> while
  \<^verbatim>\<open>gamma_liquidity\<close> is \<open>0\<close> has share \<open>nan\<close>, which pandas' \<^verbatim>\<open>sum\<close> skips; here its
  share is \<open>0 / 0 = 0\<close>, which adds \<open>0\<close> as well.
\<close>

definition observe :: "config \<Rightarrow> nat \<Rightarrow> int \<Rightarrow> swap list \<Rightarrow> state \<Rightarrow> locals \<times> state" where
  "observe c i tick swaps_period s =
     (let pool_price = price_of_tick c tick;
          base_lower_bound_price = price_of_tick c (base_lower_bound_tick s);
          base_upper_bound_price = price_of_tick c (base_upper_bound_tick s);
          limit_lower_bound_price = price_of_tick c (limit_lower_bound_tick s);
          limit_upper_bound_price = price_of_tick c (limit_upper_bound_tick s);
          (base_x, base_y) =
             get_quantities (base_liquidity s) base_lower_bound_price base_upper_bound_price
               pool_price;
          (limit_x, limit_y) =
             get_quantities (limit_liquidity s) limit_lower_bound_price limit_upper_bound_price
               pool_price;
          gamma_liquidity = (\<lambda>w.
              base_liquidity s
                * of_bool (base_lower_bound_tick s \<le> swap_tick w
                           \<and> swap_tick w < base_upper_bound_tick s)
            + limit_liquidity s
                * of_bool (limit_lower_bound_tick s \<le> swap_tick w
                           \<and> swap_tick w < limit_upper_bound_tick s));
          gamma_share = (\<lambda>w. gamma_liquidity w / (gamma_liquidity w + swap_liquidity w));
          fees_x = sum_list (map (\<lambda>w. gamma_share w * swap_fees_x w) swaps_period);
          fees_y = sum_list (map (\<lambda>w. gamma_share w * swap_fees_y w) swaps_period);
          outside_x = outside_x s + fees_x;
          outside_y = outside_y s + fees_y;
          base_lower_trigger_tick = base_lower_bound_tick s - base_lower_trigger_ticks c;
          base_upper_trigger_tick = base_upper_bound_tick s + base_upper_trigger_ticks c;
          base_triggered = triggered base_lower_trigger_tick base_upper_trigger_tick tick;
          limit_lower_trigger_tick = limit_lower_bound_tick s - limit_trigger_ticks c;
          limit_upper_trigger_tick = limit_upper_bound_tick s + limit_trigger_ticks c;
          limit_triggered = triggered limit_lower_trigger_tick limit_upper_trigger_tick tick;
          lent = lent s;
          borrowed = borrowed s;
          delta = - borrowed + base_x + limit_x + outside_x;
          current_position =
              1 * of_bool (base_upper_bound_tick s = (887272 div spacing c) * spacing c)
            - 1 * of_bool (base_lower_bound_tick s
                           = ((- 887272) div spacing c) * spacing c + spacing c);
          target_position =
              1 * of_bool (np_less (np_divide delta borrowed) (Finite (- delta_threshold c)))
            - 1 * of_bool (np_less (Finite (delta_threshold c)) (np_divide delta borrowed));
          (rebalance, reason) =
             check_for_rebalance limit_triggered base_triggered
               (current_position \<noteq> target_position) (i = 0);
          (lent, borrowed, outside_x, outside_y) =
             (if i = 0 then
                (let lent = start_value c * 2 / 3;
                     borrowed = lent / 2 / pool_price;
                     outside_x = borrowed;
                     outside_y = start_value c - lent
                 in (lent, borrowed, outside_x, outside_y))
              else (lent, borrowed, outside_x, outside_y))
      in (\<lparr> pool_tick = tick, pool_price = pool_price,
             base_x = base_x, base_y = base_y, limit_x = limit_x, limit_y = limit_y,
             fees_x = fees_x, fees_y = fees_y,
             base_lower_trigger_tick = base_lower_trigger_tick,
             base_upper_trigger_tick = base_upper_trigger_tick,
             base_triggered = base_triggered,
             limit_lower_trigger_tick = limit_lower_trigger_tick,
             limit_upper_trigger_tick = limit_upper_trigger_tick,
             limit_triggered = limit_triggered,
             delta = delta, current_position = current_position,
             target_position = target_position,
             rebalance = rebalance, reason = reason \<rparr>,
          s\<lparr> outside_x := outside_x, outside_y := outside_y,
             lent := lent, borrowed := borrowed \<rparr>))"

subsection \<open>Rebalancing\<close>

text \<open>Lines 160--161. A membership test used as a factor is \<^const>\<open>of_bool\<close>.\<close>

definition new_base_bounds :: "config \<Rightarrow> int \<Rightarrow> int \<Rightarrow> int \<times> int" where
  "new_base_bounds c tick target =
     (let base_lower_bound_tick =
              (((- 887272) div spacing c) * spacing c + spacing c) * of_bool (target = - 1)
            + (((tick - base_lower_bound_ticks c) div spacing c) * spacing c)
                * of_bool (target \<in> {0, 1});
          base_upper_bound_tick =
              (((tick + base_upper_bound_ticks c) div spacing c) * spacing c)
                * of_bool (target \<in> {- 1, 0})
            + ((887272 div spacing c) * spacing c) * of_bool (target = 1)
      in (base_lower_bound_tick, base_upper_bound_tick))"

text \<open>
  Lines 173--182; \<open>remaining_y\<close> is \<^verbatim>\<open>outside_y\<close> after the base position is minted.
  The test \<^verbatim>\<open>outside_y==0\<close> is on the real value here. On doubles it agrees when the
  base mint took \<^verbatim>\<open>position_y = y\<close> (the difference is then exactly \<open>0\<close>). Where
  the two tokens are in the exact proportion of the range, as in the first iteration at
  a tick that is a multiple of the spacing, rounding can send the program through lines
  26--29 instead; \<^verbatim>\<open>outside_y\<close> is then a residue of either sign rather than \<open>0\<close>, and
  the program takes the other range.
\<close>

definition new_limit_bounds :: "config \<Rightarrow> int \<Rightarrow> int \<Rightarrow> real \<Rightarrow> int \<times> int" where
  "new_limit_bounds c tick target remaining_y =
     (let limit_lower_bound_tick =
              (((- 887272) div spacing c) * spacing c + spacing c) * of_bool (target = - 1)
            + (((tick - limit_bound_ticks c) div spacing c) * spacing c)
                * of_bool (target \<in> {0, 1});
          limit_upper_bound_tick =
              (((tick + limit_bound_ticks c) div spacing c) * spacing c)
                * of_bool (target \<in> {- 1, 0})
            + ((887272 div spacing c) * spacing c) * of_bool (target = 1);
          limit_lower_bound_tick =
             min limit_lower_bound_tick ((tick div spacing c) * spacing c - spacing c);
          limit_upper_bound_tick =
             max limit_upper_bound_tick ((tick div spacing c) * spacing c + 2 * spacing c)
      in if remaining_y = 0
         then ((tick div spacing c) * spacing c + spacing c, limit_upper_bound_tick)
         else (limit_lower_bound_tick, (tick div spacing c) * spacing c))"

text \<open>
  Lines 153--191, run when \<^verbatim>\<open>rebalance\<close> holds. The state passed in is the one
  immediately before the burn; when the reason is \<^verbatim>\<open>limit_trigger\<close> the base prices are
  those of the unchanged bounds (lines 85--86).
\<close>

definition rebalance_positions :: "config \<Rightarrow> locals \<Rightarrow> state \<Rightarrow> state" where
  "rebalance_positions c v s =
     (let outside_x = outside_x s + (base_x v + limit_x v);
          outside_y = outside_y s + (base_y v + limit_y v);
          (base_lower_bound_tick, base_upper_bound_tick) =
             (if reason v \<in> {Some Base_trigger, Some Delta, Some Initialization}
              then new_base_bounds c (pool_tick v) (target_position v)
              else (base_lower_bound_tick s, base_upper_bound_tick s));
          base_lower_bound_price = price_of_tick c base_lower_bound_tick;
          base_upper_bound_price = price_of_tick c base_upper_bound_tick;
          (base_liquidity, base_x, base_y) =
             mint_position outside_x outside_y base_lower_bound_price base_upper_bound_price
               (pool_price v);
          outside_x = outside_x - base_x;
          outside_y = outside_y - base_y;
          (limit_lower_bound_tick, limit_upper_bound_tick) =
             new_limit_bounds c (pool_tick v) (target_position v) outside_y;
          limit_lower_bound_price = price_of_tick c limit_lower_bound_tick;
          limit_upper_bound_price = price_of_tick c limit_upper_bound_tick;
          (limit_liquidity, limit_x, limit_y) =
             mint_position outside_x outside_y limit_lower_bound_price limit_upper_bound_price
               (pool_price v);
          outside_x = outside_x - limit_x;
          outside_y = outside_y - limit_y
      in s\<lparr> outside_x := outside_x, outside_y := outside_y,
            base_lower_bound_tick := base_lower_bound_tick,
            base_upper_bound_tick := base_upper_bound_tick,
            base_liquidity := base_liquidity,
            limit_lower_bound_tick := limit_lower_bound_tick,
            limit_upper_bound_tick := limit_upper_bound_tick,
            limit_liquidity := limit_liquidity \<rparr>)"

subsection \<open>One iteration and the loop\<close>

text \<open>
  \<open>next_state\<close> is what the iteration writes at row \<open>i + 1\<close> (lines 195--210);
  \<^verbatim>\<open>(1+apy)**(1/(365*24*12))\<close> is a real power.
\<close>

definition next_state :: "config \<Rightarrow> nat \<Rightarrow> int \<Rightarrow> swap list \<Rightarrow> state \<Rightarrow> state" where
  "next_state c i tick swaps_period s =
     (let (v, s1) = observe c i tick swaps_period s;
          s2 = (if rebalance v then rebalance_positions c v s1 else s1)
      in s2\<lparr> lent := lent s2 * (1 + lending_apy c) powr (1 / (365 * 24 * 12)),
              borrowed := borrowed s2 * (1 + borrowing_apy c) powr (1 / (365 * 24 * 12)) \<rparr>)"

definition backtest_step ::
  "config \<Rightarrow> nat \<Rightarrow> int \<Rightarrow> swap list \<Rightarrow> state \<Rightarrow> py_error + locals \<times> state" where
  "backtest_step c i tick swaps_period s =
     (if spacing c = 0 then Inl ZeroDivisionError
      else Inr (fst (observe c i tick swaps_period s), next_state c i tick swaps_period s))"





subsection \<open>Example rows\<close>

text \<open>
  Rows at which the statements below are evaluated. All three hold no liquidity, so
  their token quantities are \<open>0\<close> at every price. In \<open>quiet_state\<close> the hedge is
  balanced (\<open>delta = 0\<close>); in \<open>short_state\<close> the reserve holds no token X against a
  borrowed balance of \<open>1\<close> (\<open>delta / borrowed = - 1\<close>); \<open>narrow_state\<close> has a base
  range of one spacing; \<open>stale_limit_state\<close> is \<open>quiet_state\<close> with its limit range
  at \<open>[300, 360)\<close>, which a pool tick of \<open>0\<close> has left.
\<close>

definition quiet_state :: state where
  "quiet_state =
     \<lparr> outside_x = 1, outside_y = 1,
       base_lower_bound_tick = - 300, base_upper_bound_tick = 300, base_liquidity = 0,
       limit_lower_bound_tick = - 60, limit_upper_bound_tick = 0, limit_liquidity = 0,
       lent = 1, borrowed = 1 \<rparr>"

definition short_state :: state where
  "short_state =
     \<lparr> outside_x = 0, outside_y = 1,
       base_lower_bound_tick = - 300, base_upper_bound_tick = 300, base_liquidity = 0,
       limit_lower_bound_tick = - 60, limit_upper_bound_tick = 0, limit_liquidity = 0,
       lent = 1, borrowed = 1 \<rparr>"

definition stale_limit_state :: state where
  "stale_limit_state =
     \<lparr> outside_x = 1, outside_y = 1,
       base_lower_bound_tick = - 300, base_upper_bound_tick = 300, base_liquidity = 0,
       limit_lower_bound_tick = 300, limit_upper_bound_tick = 360, limit_liquidity = 0,
       lent = 1, borrowed = 1 \<rparr>"

definition narrow_state :: state where
  "narrow_state =
     \<lparr> outside_x = 1, outside_y = 1,
       base_lower_bound_tick = 0, base_upper_bound_tick = 60, base_liquidity = 0,
       limit_lower_bound_tick = - 60, limit_upper_bound_tick = 0, limit_liquidity = 0,
       lent = 1, borrowed = 1 \<rparr>"

section \<open>Properties of the liquidity arithmetic\<close>

lemma inv_sqrt_diff_pos:
  assumes "0 < a" "a < b"
  shows "0 < 1 / sqrt a - 1 / sqrt b"
proof -
  have "0 < sqrt a" "sqrt a < sqrt b" using assms by simp_all
  then have "1 / sqrt b < 1 / sqrt a"
    by (simp add: frac_less2)
  then show ?thesis by simp
qed

lemma sqrt_diff_pos:
  assumes "a < b"
  shows "0 < sqrt b - sqrt a"
  using assms by simp

lemma mint_then_quantities:
  fixes x y lower_price upper_price pool_price :: real
  assumes "0 < lower_price" "lower_price < upper_price" "0 < pool_price"
  shows "get_quantities (fst (mint_position x y lower_price upper_price pool_price))
           lower_price upper_price pool_price
         = snd (mint_position x y lower_price upper_price pool_price)"
proof -
  have up: "0 < upper_price" using assms by linarith
  consider (inside) "lower_price < pool_price" "pool_price < upper_price"
    | (below) "pool_price \<le> lower_price"
    | (above) "upper_price \<le> pool_price"
    by linarith
  then show ?thesis
  proof cases
    case inside
    have d1: "sqrt pool_price - sqrt lower_price \<noteq> 0"
      using sqrt_diff_pos [OF inside(1)] by linarith
    have d2: "1 / sqrt pool_price - 1 / sqrt upper_price \<noteq> 0"
      using inv_sqrt_diff_pos [OF assms(3) inside(2)] by linarith
    show ?thesis
      using inside d1 d2
      by (simp add: mint_position_def get_quantities_def Let_def)
  next
    case below
    have d: "1 / sqrt lower_price - 1 / sqrt upper_price \<noteq> 0"
      using inv_sqrt_diff_pos [OF assms(1,2)] by linarith
    have n: "\<not> upper_price \<le> pool_price" using below assms by linarith
    show ?thesis
      using below d n
      by (simp add: mint_position_def get_quantities_def Let_def)
  next
    case above
    have d: "sqrt upper_price - sqrt lower_price \<noteq> 0"
      using sqrt_diff_pos [OF assms(2)] by linarith
    have n: "\<not> pool_price \<le> lower_price" "\<not> pool_price < upper_price"
      using above assms by linarith+
    show ?thesis
      using above d n
      by (simp add: mint_position_def get_quantities_def Let_def)
  qed
qed

lemma sqrt_nine: "sqrt 9 = 3"
  using real_sqrt_abs [of 3] by simp

lemma scarce_x_uses_le_y:
  fixes a b x y :: real
  assumes "0 < a" "0 < b" "x < y / a * b"
  shows "x / b * a \<le> y"
proof -
  have "x / b < y / a"
    using assms(2,3) by (simp add: pos_divide_less_eq)
  then have "x / b * a < y"
    using assms(1) by (simp add: pos_less_divide_eq)
  then show ?thesis by simp
qed

text \<open>
  Claim C2. For all \<open>x, y \<ge> 0\<close>, every range \<open>0 < lower_price < upper_price\<close> and every
  positive pool price: when \<^const>\<open>mint_position\<close> returns \<open>(liquidity, usedX, usedY)\<close>,
  \<^const>\<open>get_quantities\<close> on that liquidity and the same prices returns exactly
  \<open>(usedX, usedY)\<close>, over the real numbers.
\<close>

theorem mint_quantities_round_trip:
  fixes x y lower_price upper_price pool_price liquidity usedX usedY :: real
  assumes "0 \<le> x" "0 \<le> y" "0 < lower_price" "lower_price < upper_price" "0 < pool_price"
    and "mint_position x y lower_price upper_price pool_price = (liquidity, usedX, usedY)"
  shows "get_quantities liquidity lower_price upper_price pool_price = (usedX, usedY)"
  using mint_then_quantities [OF assms(3,4,5), of x y] assms(6) by simp

theorem mint_quantities_round_trip_witness:
  "(0::real) \<le> 1 \<and> (0::real) < 1 \<and> (1::real) < 9 \<and> (0::real) < 4
   \<and> mint_position 1 1 1 9 4 = (1, 1/6, 1)
   \<and> get_quantities 1 1 9 4 = (1/6, 1)"
proof -
  have m: "mint_position 1 1 1 9 4 = (1, 1/6, 1)"
    by (simp add: mint_position_def sqrt_nine)
  have "get_quantities 1 1 9 4 = (1/6, 1)"
    using mint_quantities_round_trip [of 1 1 1 9 4 1 "1/6" 1] m by simp
  with m show ?thesis by simp
qed

text \<open>
  Over the real numbers \<^const>\<open>mint_position\<close> uses at most what it is given.
\<close>

lemma mint_position_real_within_supplied:
  fixes x y lower_price upper_price pool_price liquidity usedX usedY :: real
  assumes "0 \<le> x" "0 \<le> y" "0 < lower_price" "lower_price < upper_price" "0 < pool_price"
    and "mint_position x y lower_price upper_price pool_price = (liquidity, usedX, usedY)"
  shows "usedX \<le> x \<and> usedY \<le> y \<and> 0 \<le> x - usedX \<and> 0 \<le> y - usedY
         \<and> (pool_price \<le> lower_price \<longrightarrow> usedY = 0)
         \<and> (upper_price \<le> pool_price \<longrightarrow> usedX = 0)"
proof -
  have ux: "usedX = fst (snd (mint_position x y lower_price upper_price pool_price))"
    and uy: "usedY = snd (snd (mint_position x y lower_price upper_price pool_price))"
    using assms(6) by simp_all
  consider (inside) "lower_price < pool_price" "pool_price < upper_price"
    | (below) "pool_price \<le> lower_price"
    | (above) "upper_price \<le> pool_price"
    by linarith
  then show ?thesis
  proof cases
    case inside
    have a: "0 < sqrt pool_price - sqrt lower_price"
      by (rule sqrt_diff_pos [OF inside(1)])
    have b: "0 < 1 / sqrt pool_price - 1 / sqrt upper_price"
      by (rule inv_sqrt_diff_pos [OF assms(5) inside(2)])
    show ?thesis
    proof (cases "x < y / (sqrt pool_price - sqrt lower_price)
                        * (1 / sqrt pool_price - 1 / sqrt upper_price)")
      case True
      have "mint_position x y lower_price upper_price pool_price
            = (x / (1 / sqrt pool_price - 1 / sqrt upper_price), x,
               x / (1 / sqrt pool_price - 1 / sqrt upper_price)
                 * (sqrt pool_price - sqrt lower_price))"
        using inside True by (simp add: mint_position_def Let_def)
      then have "usedX = x"
        and "usedY = x / (1 / sqrt pool_price - 1 / sqrt upper_price)
                       * (sqrt pool_price - sqrt lower_price)"
        by (simp_all add: ux uy)
      then show ?thesis
        using scarce_x_uses_le_y [OF a b True] inside by simp
    next
      case False
      have "mint_position x y lower_price upper_price pool_price
            = (y / (sqrt pool_price - sqrt lower_price),
               y / (sqrt pool_price - sqrt lower_price)
                 * (1 / sqrt pool_price - 1 / sqrt upper_price), y)"
        using inside False by (simp add: mint_position_def Let_def)
      then have "usedY = y"
        and "usedX = y / (sqrt pool_price - sqrt lower_price)
                       * (1 / sqrt pool_price - 1 / sqrt upper_price)"
        by (simp_all add: ux uy)
      then show ?thesis
        using False inside by simp
    qed
  next
    case below
    have "mint_position x y lower_price upper_price pool_price
          = (x / (1 / sqrt lower_price - 1 / sqrt upper_price), x, 0)"
      using assms(4) below by (simp add: mint_position_def Let_def)
    then have "usedX = x" "usedY = 0"
      by (simp_all add: ux uy)
    then show ?thesis using assms(1,2,4) below by simp
  next
    case above
    have n: "\<not> pool_price \<le> lower_price" "\<not> pool_price < upper_price"
      using above assms(4) by linarith+
    have "mint_position x y lower_price upper_price pool_price
          = (y / (sqrt upper_price - sqrt lower_price), 0, y)"
      using n by (simp add: mint_position_def Let_def)
    then have "usedX = 0" "usedY = y"
      by (simp_all add: ux uy)
    then show ?thesis using assms(1,2) n by simp
  qed
qed

subsection \<open>The same in double precision\<close>

lemma round_half_even_eq:
  assumes "\<bar>r - of_int m\<bar> < 1 / 2"
  shows "round_half_even r = m"
proof (cases "of_int m \<le> r")
  case True
  then have "\<lfloor>r\<rfloor> = m"
    using assms by (intro floor_unique) linarith+
  then show ?thesis
    using assms True by (simp add: round_half_even_def)
next
  case False
  have m1: "real_of_int (m - 1) = of_int m - 1"
    by simp
  have f: "\<lfloor>r\<rfloor> = m - 1"
  proof (rule floor_unique)
    show "of_int (m - 1) \<le> r"
      unfolding m1 using assms by linarith
    show "r < of_int (m - 1) + 1"
      unfolding m1 using False by linarith
  qed
  have "1 / 2 < r - of_int (m - 1)"
    unfolding m1 using assms by linarith
  then show ?thesis
    using f by (simp add: round_half_even_def)
qed

lemma floor_log2_eq:
  fixes r :: real
  assumes "2 powi e \<le> r" "r < 2 powi (e + 1)"
  shows "\<lfloor>log 2 r\<rfloor> = e"
proof -
  have p: "0 < r"
    using assms(1) zero_less_power_int [of "2::real" e] by linarith
  have "(2::real) powr (of_int e) = 2 powi e"
    by (simp add: powr_real_of_int')
  moreover have "(2::real) powr (of_int (e + 1)) = 2 powi (e + 1)"
    by (rule powr_real_of_int') simp_all
  ultimately show ?thesis
    using assms floor_log_eq_powr_iff [OF p, of 2 e] by simp
qed

lemma f64_eq:
  fixes r :: real
  assumes "2 powi e \<le> r" "r < 2 powi (e + 1)"
    and "\<bar>r / 2 powi (e - 52) - of_int m\<bar> < 1 / 2"
  shows "f64 r = of_int m * 2 powi (e - 52)"
proof -
  have p: "0 < r"
    using assms(1) zero_less_power_int [of "2::real" e] by linarith
  have e: "\<lfloor>log 2 \<bar>r\<bar>\<rfloor> = e"
    using floor_log2_eq [OF assms(1,2)] p by simp
  have "round_half_even (\<bar>r\<bar> / 2 powi (e - 52)) = m"
    using round_half_even_eq [OF assms(3)] p by simp
  then show ?thesis
    using p e by (simp add: f64_def Let_def)
qed

lemma f64_sqrt_eq:
  fixes a :: real
  assumes "(2 powi e)\<^sup>2 \<le> a" "a < (2 powi (e + 1))\<^sup>2"
    and "0 \<le> (of_int m - 1 / 2 :: real)"
    and "((of_int m - 1 / 2) * 2 powi (e - 52))\<^sup>2 < a"
    and "a < ((of_int m + 1 / 2) * 2 powi (e - 52))\<^sup>2"
  shows "f64 (sqrt a) = of_int m * 2 powi (e - 52)"
proof -
  have u: "(0::real) < 2 powi (e - 52)"
    by simp
  have a0: "0 \<le> a"
    using assms(1) zero_le_power2 [of "2 powi e :: real"] by linarith
  have lo: "2 powi e \<le> sqrt a"
    by (rule real_le_rsqrt [OF assms(1)])
  have hi: "sqrt a < 2 powi (e + 1)"
    by (rule real_less_lsqrt [OF _ assms(2)]) simp
  have l: "(of_int m - 1 / 2) * 2 powi (e - 52) < sqrt a"
    by (rule real_less_rsqrt [OF assms(4)])
  have h: "sqrt a < (of_int m + 1 / 2) * 2 powi (e - 52)"
    using assms(3) by (intro real_less_lsqrt [OF _ assms(5)]) simp
  have "of_int m - 1 / 2 < sqrt a / 2 powi (e - 52)"
    using l u by (simp add: pos_less_divide_eq)
  moreover have "sqrt a / 2 powi (e - 52) < of_int m + 1 / 2"
    using h u by (simp add: pos_divide_less_eq)
  ultimately have "\<bar>sqrt a / 2 powi (e - 52) - of_int m\<bar> < 1 / 2"
    by linarith
  then show ?thesis
    by (rule f64_eq [OF lo hi])
qed

lemma f64_one:
  "f64 (1) = (1 :: real)"
  using f64_eq [of "0" "1" 4503599627370496] by simp

lemma f64_two:
  "f64 (2) = (2 :: real)"
  using f64_eq [of "1" "2" 4503599627370496] by simp

lemma f64_half:
  "f64 (1 / 2) = (1 / 2 :: real)"
  using f64_eq [of "- 1" "1 / 2" 4503599627370496] by simp

lemma f64_three:
  "f64 (3) = (3 :: real)"
  using f64_eq [of "1" "3" 6755399441055744] by simp

lemma f64_four:
  "f64 (4) = (4 :: real)"
  using f64_eq [of "2" "4" 4503599627370496] by simp

lemma f64_decimal_x:
  "f64 (760642088890389 / 100000000000000) = (8564068570222679 / 1125899906842624 :: real)"
  using f64_eq [of "2" "760642088890389 / 100000000000000" 8564068570222679] by simp

lemma f64_decimal_pool:
  "f64 (263 / 200) = (2961116754996101 / 2251799813685248 :: real)"
  using f64_eq [of "0" "263 / 200" 5922233509992202] by simp

lemma step_sqrt_pool:
  "f64 (sqrt (2961116754996101 / 2251799813685248)) = (5164433040402591 / 4503599627370496 :: real)"
  using f64_sqrt_eq [of "0" "2961116754996101 / 2251799813685248" 5164433040402591]
  by (simp add: power2_eq_square)

lemma step_sqrt_diff:
  "f64 (660833413032095 / 4503599627370496) = (660833413032095 / 4503599627370496 :: real)"
  using f64_eq [of "- 3" "660833413032095 / 4503599627370496" 5286667304256760] by simp

lemma step_liquidity_y:
  "f64 (13510798882111488 / 660833413032095) = (2877390674932465 / 140737488355328 :: real)"
  using f64_eq [of "4" "13510798882111488 / 660833413032095" 5754781349864930] by simp

lemma step_inv_sqrt_pool:
  "f64 (4503599627370496 / 5164433040402591) = (7854651012019149 / 9007199254740992 :: real)"
  using f64_eq [of "- 1" "4503599627370496 / 5164433040402591" 7854651012019149] by simp

lemma step_inv_diff:
  "f64 (3351051384648653 / 9007199254740992) = (3351051384648653 / 9007199254740992 :: real)"
  using f64_eq [of "- 2" "3351051384648653 / 9007199254740992" 6702102769297306] by simp

lemma step_position_x:
  "f64 (9642284005407559038248528219645 / 1267650600228229401496703205376) = (1070508571277835 / 140737488355328 :: real)"
  using f64_eq [of "2" "9642284005407559038248528219645 / 1267650600228229401496703205376" 8564068570222680] by simp

lemma step_liquidity_x:
  "f64 (68512548561781432 / 3351051384648653) = (2877390674932465 / 140737488355328 :: real)"
  using f64_eq [of "4" "68512548561781432 / 3351051384648653" 5754781349864930] by simp

lemma step_position_y:
  "f64 (1901475900342344244165002464175 / 633825300114114700748351602688) = (6755399441055745 / 2251799813685248 :: real)"
  using f64_eq [of "1" "1901475900342344244165002464175 / 633825300114114700748351602688" 6755399441055745] by simp

text \<open>
  Claim C8 requires \<open>usedX \<le> x\<close> and \<open>usedY \<le> y\<close> of what \<^verbatim>\<open>mint_position\<close>
  returns. On doubles the program breaks it: at \<^verbatim>\<open>mint_position(7.60642088890389, 3.0,
  1.0, 4.0, 1.315)\<close> token X is the scarce one, the branch of lines 26--29 computes
  \<^verbatim>\<open>position_y\<close> again by a rounded division and a rounded multiplication, and the
  result is \<open>3 + 1 / 2 ^ 51\<close>, one unit in the last place above \<open>y = 3\<close>.
\<close>

theorem mint_position_f64_exceeds_supplied:
  "mint_position_f64 (8564068570222679 / 1125899906842624) 3 1 4 (2961116754996101 / 2251799813685248)
     = (2877390674932465 / 140737488355328, 8564068570222679 / 1125899906842624, 6755399441055745 / 2251799813685248)
   \<and> (3 :: real) < 6755399441055745 / 2251799813685248
   \<and> (6755399441055745 / 2251799813685248 :: real) = 3 + 1 / 2 ^ 51
   \<and> f64 (760642088890389 / 100000000000000) = 8564068570222679 / 1125899906842624
   \<and> f64 (1315 / 1000) = 2961116754996101 / 2251799813685248"
proof -
  have "mint_position_f64 (8564068570222679 / 1125899906842624) 3 1 4 (2961116754996101 / 2251799813685248)
     = (2877390674932465 / 140737488355328, 8564068570222679 / 1125899906842624, 6755399441055745 / 2251799813685248)"
    by (simp add: mint_position_f64_def Let_def f64_one f64_two f64_half step_sqrt_pool
        step_sqrt_diff step_liquidity_y step_inv_sqrt_pool step_inv_diff step_position_x
        step_liquidity_x step_position_y)
  then show ?thesis
    using f64_decimal_x f64_decimal_pool by simp
qed

section \<open>Properties of one iteration\<close>

subsection \<open>What an iteration reads and writes\<close>

lemma check_for_rebalance_eq:
  "check_for_rebalance l b d f =
     (l \<or> b \<or> d \<or> f,
      if f then Some Initialization
      else if d then Some Delta
      else if b then Some Base_trigger
      else if l then Some Limit_trigger
      else None)"
  by (simp add: check_for_rebalance_def)

lemma observe_ticks:
  "pool_tick (fst (observe c i tick sw s)) = tick"
  "pool_price (fst (observe c i tick sw s)) = price_of_tick c tick"
  "base_lower_trigger_tick (fst (observe c i tick sw s))
     = base_lower_bound_tick s - base_lower_trigger_ticks c"
  "base_upper_trigger_tick (fst (observe c i tick sw s))
     = base_upper_bound_tick s + base_upper_trigger_ticks c"
  "limit_lower_trigger_tick (fst (observe c i tick sw s))
     = limit_lower_bound_tick s - limit_trigger_ticks c"
  "limit_upper_trigger_tick (fst (observe c i tick sw s))
     = limit_upper_bound_tick s + limit_trigger_ticks c"
  "base_triggered (fst (observe c i tick sw s))
     = triggered (base_lower_bound_tick s - base_lower_trigger_ticks c)
         (base_upper_bound_tick s + base_upper_trigger_ticks c) tick"
  "limit_triggered (fst (observe c i tick sw s))
     = triggered (limit_lower_bound_tick s - limit_trigger_ticks c)
         (limit_upper_bound_tick s + limit_trigger_ticks c) tick"
  by (simp_all add: observe_def Let_def split_def)

lemma observe_decision:
  "rebalance (fst (observe c i tick sw s))
     = (limit_triggered (fst (observe c i tick sw s))
        \<or> base_triggered (fst (observe c i tick sw s))
        \<or> current_position (fst (observe c i tick sw s))
            \<noteq> target_position (fst (observe c i tick sw s))
        \<or> i = 0)"
  "reason (fst (observe c i tick sw s))
     = (if i = 0 then Some Initialization
        else if current_position (fst (observe c i tick sw s))
                 \<noteq> target_position (fst (observe c i tick sw s)) then Some Delta
        else if base_triggered (fst (observe c i tick sw s)) then Some Base_trigger
        else if limit_triggered (fst (observe c i tick sw s)) then Some Limit_trigger
        else None)"
  by (simp_all add: observe_def Let_def split_def check_for_rebalance_eq)

lemma observe_frame:
  "base_lower_bound_tick (snd (observe c i tick sw s)) = base_lower_bound_tick s"
  "base_upper_bound_tick (snd (observe c i tick sw s)) = base_upper_bound_tick s"
  "base_liquidity (snd (observe c i tick sw s)) = base_liquidity s"
  "limit_lower_bound_tick (snd (observe c i tick sw s)) = limit_lower_bound_tick s"
  "limit_upper_bound_tick (snd (observe c i tick sw s)) = limit_upper_bound_tick s"
  "limit_liquidity (snd (observe c i tick sw s)) = limit_liquidity s"
  by (simp_all add: observe_def Let_def split_def)

lemma observe_hedge:
  "lent (snd (observe c i tick sw s))
     = (if i = 0 then start_value c * 2 / 3 else lent s)"
  "borrowed (snd (observe c i tick sw s))
     = (if i = 0 then start_value c * 2 / 3 / 2 / price_of_tick c tick else borrowed s)"
  "outside_x (snd (observe c i tick sw s))
     = (if i = 0 then start_value c * 2 / 3 / 2 / price_of_tick c tick
        else outside_x s + fees_x (fst (observe c i tick sw s)))"
  "outside_y (snd (observe c i tick sw s))
     = (if i = 0 then start_value c - start_value c * 2 / 3
        else outside_y s + fees_y (fst (observe c i tick sw s)))"
  by (simp_all add: observe_def Let_def split_def)


lemma rebalance_positions_hedge:
  "lent (rebalance_positions c v s) = lent s"
  "borrowed (rebalance_positions c v s) = borrowed s"
  by (simp_all add: rebalance_positions_def Let_def split_def)

lemma next_state_hedge:
  "lent (next_state c i tick sw s)
     = lent (snd (observe c i tick sw s)) * (1 + lending_apy c) powr (1 / (365 * 24 * 12))"
  "borrowed (next_state c i tick sw s)
     = borrowed (snd (observe c i tick sw s))
         * (1 + borrowing_apy c) powr (1 / (365 * 24 * 12))"
  by (simp_all add: next_state_def Let_def split_def rebalance_positions_hedge)

lemma get_quantities_zero: "get_quantities 0 l u p = (0, 0)"
  by (simp add: get_quantities_def)

lemma backtest_step_Inr:
  "spacing c \<noteq> 0 \<Longrightarrow>
   backtest_step c i tick sw s = Inr (fst (observe c i tick sw s), next_state c i tick sw s)"
  by (simp add: backtest_step_def)

lemma backtest_step_InrD:
  assumes "backtest_step c i tick sw s = Inr (v, s')"
  shows "v = fst (observe c i tick sw s)" "s' = next_state c i tick sw s" "spacing c \<noteq> 0"
  using assms by (simp_all add: backtest_step_def split: if_splits)

lemma backtest_step_error:
  "backtest_step c i tick sw s = Inl e \<longleftrightarrow> spacing c = 0"
  by (cases e) (simp add: backtest_step_def)

lemma reason_imp_rebalance:
  "reason (fst (observe c i tick sw s)) = Some r \<Longrightarrow> rebalance (fst (observe c i tick sw s))"
  by (simp add: observe_decision split: if_splits)

lemma target_position_range:
  "target_position (fst (observe c i tick sw s)) \<in> {- 1, 0, 1}"
  by (simp add: observe_def Let_def split_def)

lemma target_position_zero_borrowed:
  assumes "borrowed s = 0"
  shows "target_position (fst (observe c i tick sw s))
         = (if delta (fst (observe c i tick sw s)) = 0 then 0
            else if 0 < delta (fst (observe c i tick sw s)) then - 1 else 1)"
  using assms by (simp add: observe_def Let_def split_def np_divide_def)


lemma price_of_tick_strict_mono:
  assumes "a < b"
  shows "price_of_tick c a < price_of_tick c b"
proof -
  have "(10001 / 10000 :: real) powi a < (10001 / 10000) powi b"
    by (rule power_int_strict_increasing [OF assms]) simp
  moreover have "(0::real) < 10 powi (decimals_y c - decimals_x c)"
    by simp
  ultimately show ?thesis
    unfolding price_of_tick_def by (rule divide_strict_right_mono)
qed


lemma rebalance_positions_base_bounds:
  "(base_lower_bound_tick (rebalance_positions c v s),
    base_upper_bound_tick (rebalance_positions c v s))
   = (if reason v \<in> {Some Base_trigger, Some Delta, Some Initialization}
      then new_base_bounds c (pool_tick v) (target_position v)
      else (base_lower_bound_tick s, base_upper_bound_tick s))"
  by (simp add: rebalance_positions_def Let_def split_def)

lemma next_state_bounds:
  "base_lower_bound_tick (next_state c i tick sw s)
     = (if rebalance (fst (observe c i tick sw s))
        then base_lower_bound_tick
               (rebalance_positions c (fst (observe c i tick sw s)) (snd (observe c i tick sw s)))
        else base_lower_bound_tick s)"
  "base_upper_bound_tick (next_state c i tick sw s)
     = (if rebalance (fst (observe c i tick sw s))
        then base_upper_bound_tick
               (rebalance_positions c (fst (observe c i tick sw s)) (snd (observe c i tick sw s)))
        else base_upper_bound_tick s)"
  "limit_lower_bound_tick (next_state c i tick sw s)
     = (if rebalance (fst (observe c i tick sw s))
        then limit_lower_bound_tick
               (rebalance_positions c (fst (observe c i tick sw s)) (snd (observe c i tick sw s)))
        else limit_lower_bound_tick s)"
  "limit_upper_bound_tick (next_state c i tick sw s)
     = (if rebalance (fst (observe c i tick sw s))
        then limit_upper_bound_tick
               (rebalance_positions c (fst (observe c i tick sw s)) (snd (observe c i tick sw s)))
        else limit_upper_bound_tick s)"
  by (simp_all add: next_state_def Let_def split_def observe_frame)

subsection \<open>Token holdings across a rebalance\<close>




lemma next_state_rebalanced:
  assumes "rebalance (fst (observe c i tick sw s))"
  shows "next_state c i tick sw s
         = (rebalance_positions c (fst (observe c i tick sw s)) (snd (observe c i tick sw s)))
             \<lparr> lent := lent (snd (observe c i tick sw s))
                          * (1 + lending_apy c) powr (1 / (365 * 24 * 12)),
                borrowed := borrowed (snd (observe c i tick sw s))
                          * (1 + borrowing_apy c) powr (1 / (365 * 24 * 12)) \<rparr>"
  using assms by (simp add: next_state_def Let_def split_def rebalance_positions_hedge)


lemma first_step_decision:
  "rebalance (fst (observe c 0 tick sw s))"
  "reason (fst (observe c 0 tick sw s)) = Some Initialization"
  by (simp_all add: observe_decision)





lemma new_limit_bounds_explicit:
  "new_limit_bounds c tick target remaining_y =
     (if remaining_y = 0
      then ((tick div spacing c) * spacing c + spacing c,
            max ((((tick + limit_bound_ticks c) div spacing c) * spacing c)
                   * of_bool (target \<in> {- 1, 0})
                 + ((887272 div spacing c) * spacing c) * of_bool (target = 1))
                ((tick div spacing c) * spacing c + 2 * spacing c))
      else (min ((((- 887272) div spacing c) * spacing c + spacing c) * of_bool (target = - 1)
                 + (((tick - limit_bound_ticks c) div spacing c) * spacing c)
                     * of_bool (target \<in> {0, 1}))
                ((tick div spacing c) * spacing c - spacing c),
            (tick div spacing c) * spacing c))"
  by (simp add: new_limit_bounds_def Let_def)

lemma rebalance_positions_unfold:
  "rebalance_positions c v s =
     (let ox = outside_x s + (base_x v + limit_x v);
          oy = outside_y s + (base_y v + limit_y v);
          bb = (if reason v \<in> {Some Base_trigger, Some Delta, Some Initialization}
                then new_base_bounds c (pool_tick v) (target_position v)
                else (base_lower_bound_tick s, base_upper_bound_tick s));
          bm = mint_position ox oy (price_of_tick c (fst bb)) (price_of_tick c (snd bb))
                 (pool_price v);
          rx = ox - fst (snd bm);
          ry = oy - snd (snd bm);
          lb = new_limit_bounds c (pool_tick v) (target_position v) ry;
          lm = mint_position rx ry (price_of_tick c (fst lb)) (price_of_tick c (snd lb))
                 (pool_price v)
      in s\<lparr> outside_x := rx - fst (snd lm), outside_y := ry - snd (snd lm),
            base_lower_bound_tick := fst bb, base_upper_bound_tick := snd bb,
            base_liquidity := fst bm,
            limit_lower_bound_tick := fst lb, limit_upper_bound_tick := snd lb,
            limit_liquidity := fst lm \<rparr>)"
  by (simp add: rebalance_positions_def Let_def split_def)

lemma mint_position_y_scarce:
  fixes B M l u p :: real
  assumes B: "0 < B" "B < 1" and M: "1 \<le> M"
    and sl: "sqrt l = B * M" and sp: "sqrt p = M" and su: "sqrt u = M / B"
    and lp: "l < p" and pu: "p < u"
  shows "mint_position 1 1 l u p = (1 / (M - B * M), 1 / (M * M), 1)"
proof -
  have M0: "0 < M" using M by linarith
  have d: "M - B * M \<noteq> 0"
    using B M0 by (simp add: field_simps)
  have px: "1 / (M - B * M) * (1 / M - 1 / (M / B)) = 1 / (M * M)"
    using B M0 d by (simp add: field_simps)
  have "1 * 1 \<le> M * M"
    using M by (intro mult_mono) simp_all
  then have "1 \<le> M * M"
    by simp
  then have "1 / (M * M) \<le> 1"
    using M0 by simp
  then have n: "\<not> 1 < 1 / (M * M)"
    by linarith
  show ?thesis
    using lp pu n px by (simp add: mint_position_def Let_def sl sp su)
qed

lemma mint_position_below:
  fixes x y l u p :: real
  assumes "p \<le> l"
  shows "mint_position x y l u p = (x / (1 / sqrt l - 1 / sqrt u), x, 0)"
  using assms by (simp add: mint_position_def Let_def)

subsection \<open>The example rows evaluated\<close>

lemma source_spacing: "spacing source_config \<noteq> 0"
  by (simp add: source_config_def)

lemma source_fields:
  "decimals_x source_config = 18" "decimals_y source_config = 6"
  "spacing source_config = 60" "start_value source_config = 1"
  "delta_threshold source_config = 1 / 10"
  "base_lower_bound_ticks source_config = 300" "base_upper_bound_ticks source_config = 300"
  "base_lower_trigger_ticks source_config = - 30"
  "base_upper_trigger_ticks source_config = - 30"
  "limit_bound_ticks source_config = 400" "limit_trigger_ticks source_config = 150"
  "lending_apy source_config = 5 / 100" "borrowing_apy source_config = 2 / 100"
  by (simp_all add: source_config_def)

lemma new_base_bounds_source:
  "new_base_bounds source_config 0 1 = (- 300, 887220)"
  "new_base_bounds source_config 0 0 = (- 300, 300)"
  "new_base_bounds source_config 0 (- 1) = (- 887220, 300)"
  by (simp_all add: new_base_bounds_def source_config_def)

lemma initial_delta: "delta (fst (observe c i tick [] initial_state)) = 0"
  by (simp add: observe_def Let_def split_def initial_state_def get_quantities_zero)

lemma quiet_delta: "delta (fst (observe source_config i tick [] quiet_state)) = 0"
  by (simp add: observe_def Let_def split_def quiet_state_def get_quantities_zero)

lemma quiet_positions:
  "current_position (fst (observe source_config i tick [] quiet_state)) = 0"
  "target_position (fst (observe source_config i tick [] quiet_state)) = 0"
  by (simp_all add: observe_def Let_def split_def quiet_state_def get_quantities_zero
      source_config_def np_divide_def)

lemma quiet_triggers:
  "base_triggered (fst (observe source_config i 0 [] quiet_state)) = False"
  "limit_triggered (fst (observe source_config i 0 [] quiet_state)) = False"
  "base_triggered (fst (observe source_config i 200 [] quiet_state)) = False"
  "limit_triggered (fst (observe source_config i 200 [] quiet_state)) = True"
  by (simp_all add: observe_ticks quiet_state_def source_config_def triggered_def)

lemma quiet_decision:
  "0 < i \<Longrightarrow> rebalance (fst (observe source_config i 0 [] quiet_state)) = False"
  "0 < i \<Longrightarrow> reason (fst (observe source_config i 200 [] quiet_state)) = Some Limit_trigger"
  "rebalance (fst (observe source_config i 200 [] quiet_state)) = True"
  by (simp_all add: observe_decision quiet_positions quiet_triggers)

lemma short_positions:
  "delta (fst (observe source_config i tick [] short_state)) = - 1"
  "current_position (fst (observe source_config i tick [] short_state)) = 0"
  "target_position (fst (observe source_config i tick [] short_state)) = 1"
  by (simp_all add: observe_def Let_def split_def short_state_def get_quantities_zero
      source_config_def np_divide_def)

lemma short_decision:
  "rebalance (fst (observe source_config i 0 [] short_state)) = True"
  "0 < i \<Longrightarrow> reason (fst (observe source_config i 0 [] short_state)) = Some Delta"
  by (simp_all add: observe_decision short_positions)

lemma short_next_base_bounds:
  assumes "0 < i"
  shows "base_lower_bound_tick (next_state source_config i 0 [] short_state) = - 300"
    and "base_upper_bound_tick (next_state source_config i 0 [] short_state) = 887220"
proof -
  have "(base_lower_bound_tick (next_state source_config i 0 [] short_state),
         base_upper_bound_tick (next_state source_config i 0 [] short_state))
        = new_base_bounds source_config 0 1"
    using assms rebalance_positions_base_bounds
      [of source_config "fst (observe source_config i 0 [] short_state)"
          "snd (observe source_config i 0 [] short_state)"]
    by (simp add: next_state_bounds short_decision short_positions observe_ticks)
  then show "base_lower_bound_tick (next_state source_config i 0 [] short_state) = - 300"
    and "base_upper_bound_tick (next_state source_config i 0 [] short_state) = 887220"
    by (simp_all add: new_base_bounds_source)
qed





lemma price_source:
  "price_of_tick source_config tick = (10001 / 10000) powi tick * 1000000000000"
  by (simp add: price_of_tick_def source_fields power_int_minus field_simps)

lemma sqrt_price_source:
  "sqrt (price_of_tick source_config (2 * k)) = (10001 / 10000) powi k * 1000000"
proof (rule real_sqrt_unique)
  have "(10001 / 10000 :: real) powi (2 * k) = ((10001 / 10000) powi k)\<^sup>2"
    by (simp add: power_int_mult mult.commute)
  then show "((10001 / 10000) powi k * 1000000)\<^sup>2 = price_of_tick source_config (2 * k)"
    by (simp add: price_source power_mult_distrib)
  show "0 \<le> (10001 / 10000 :: real) powi k * 1000000"
    by simp
qed

lemma sqrt_price_ticks:
  "sqrt (price_of_tick source_config 0) = 1000000"
  "sqrt (price_of_tick source_config (- 300)) = (10001 / 10000) powi (- 150) * 1000000"
  "sqrt (price_of_tick source_config 300) = (10001 / 10000) powi 150 * 1000000"
  "sqrt (price_of_tick source_config 60) = (10001 / 10000) powi 30 * 1000000"
  "sqrt (price_of_tick source_config 360) = (10001 / 10000) powi 180 * 1000000"
  using sqrt_price_source [of 0] sqrt_price_source [of "- 150"] sqrt_price_source [of 150]
    sqrt_price_source [of 30] sqrt_price_source [of 180]
  by simp_all

lemma stale_base_mint:
  "mint_position 1 1 (price_of_tick source_config (- 300)) (price_of_tick source_config 300)
     (price_of_tick source_config 0)
   = (1 / (1000000 - (10001 / 10000) powi (- 150) * 1000000), 1 / (1000000 * 1000000), 1)"
proof -
  define B :: real where "B = (10001 / 10000) powi (- 150)"
  have B0: "0 < B"
    unfolding B_def by (rule zero_less_power_int) simp
  have "(10001 / 10000 :: real) powi (- 150) < (10001 / 10000) powi 0"
    by (rule power_int_strict_increasing) simp_all
  then have B1: "B < 1"
    unfolding B_def by simp
  have inv: "(10001 / 10000 :: real) powi 150 = 1 / B"
    unfolding B_def by (simp only: power_int_minus inverse_eq_divide divide_divide_eq_right)
  have sl: "sqrt (price_of_tick source_config (- 300)) = B * 1000000"
    unfolding B_def by (rule sqrt_price_ticks(2))
  have sp: "sqrt (price_of_tick source_config 0) = 1000000"
    by (rule sqrt_price_ticks(1))
  have su: "sqrt (price_of_tick source_config 300) = 1000000 / B"
    using sqrt_price_ticks(3) inv by (simp only: times_divide_eq_left mult_1)
  have lp: "price_of_tick source_config (- 300) < price_of_tick source_config 0"
    by (rule price_of_tick_strict_mono) simp
  have pu: "price_of_tick source_config 0 < price_of_tick source_config 300"
    by (rule price_of_tick_strict_mono) simp
  have "mint_position 1 1 (price_of_tick source_config (- 300))
          (price_of_tick source_config 300) (price_of_tick source_config 0)
        = (1 / (1000000 - B * 1000000), 1 / (1000000 * 1000000), 1)"
    by (rule mint_position_y_scarce [OF B0 B1 _ sl sp su lp pu]) simp
  then show ?thesis
    unfolding B_def .
qed

lemma stale_fields:
  "outside_x stale_limit_state = 1" "outside_y stale_limit_state = 1"
  "base_lower_bound_tick stale_limit_state = - 300"
  "base_upper_bound_tick stale_limit_state = 300"
  "base_liquidity stale_limit_state = 0"
  "limit_lower_bound_tick stale_limit_state = 300"
  "limit_upper_bound_tick stale_limit_state = 360"
  "limit_liquidity stale_limit_state = 0"
  "lent stale_limit_state = 1" "borrowed stale_limit_state = 1"
  by (simp_all add: stale_limit_state_def)

lemma stale_locals:
  "base_x (fst (observe source_config i 0 [] stale_limit_state)) = 0"
  "base_y (fst (observe source_config i 0 [] stale_limit_state)) = 0"
  "limit_x (fst (observe source_config i 0 [] stale_limit_state)) = 0"
  "limit_y (fst (observe source_config i 0 [] stale_limit_state)) = 0"
  "fees_x (fst (observe source_config i 0 [] stale_limit_state)) = 0"
  "fees_y (fst (observe source_config i 0 [] stale_limit_state)) = 0"
  "delta (fst (observe source_config i 0 [] stale_limit_state)) = 0"
  "current_position (fst (observe source_config i 0 [] stale_limit_state)) = 0"
  "target_position (fst (observe source_config i 0 [] stale_limit_state)) = 0"
  "base_triggered (fst (observe source_config i 0 [] stale_limit_state)) = False"
  "limit_triggered (fst (observe source_config i 0 [] stale_limit_state)) = True"
  by (simp_all add: observe_def Let_def split_def stale_limit_state_def get_quantities_zero
      source_fields np_divide_def triggered_def)

lemma stale_decision:
  assumes "0 < i"
  shows "rebalance (fst (observe source_config i 0 [] stale_limit_state))"
    and "reason (fst (observe source_config i 0 [] stale_limit_state)) = Some Limit_trigger"
  using assms by (simp_all add: observe_decision stale_locals)

lemma stale_limit_bounds:
  "new_limit_bounds source_config 0 0 0 = (60, 360)"
  by (simp add: new_limit_bounds_def source_fields)

lemma stale_next_state:
  assumes "0 < i"
  shows "base_lower_bound_tick (next_state source_config i 0 [] stale_limit_state) = - 300"
    and "base_upper_bound_tick (next_state source_config i 0 [] stale_limit_state) = 300"
    and "base_liquidity (next_state source_config i 0 [] stale_limit_state)
         = 1 / (1000000 - (10001 / 10000) powi (- 150) * 1000000)"
    and "limit_lower_bound_tick (next_state source_config i 0 [] stale_limit_state) = 60"
    and "limit_upper_bound_tick (next_state source_config i 0 [] stale_limit_state) = 360"
    and "limit_liquidity (next_state source_config i 0 [] stale_limit_state)
         = (1 - 1 / (1000000 * 1000000))
           / (1 / sqrt (price_of_tick source_config 60)
              - 1 / sqrt (price_of_tick source_config 360))"
    and "outside_x (next_state source_config i 0 [] stale_limit_state) = 0"
    and "outside_y (next_state source_config i 0 [] stale_limit_state) = 0"
proof -
  let ?v = "fst (observe source_config i 0 [] stale_limit_state)"
  let ?s1 = "snd (observe source_config i 0 [] stale_limit_state)"
  have s1: "outside_x ?s1 = 1" "outside_y ?s1 = 1"
    "base_lower_bound_tick ?s1 = - 300" "base_upper_bound_tick ?s1 = 300"
    using assms
    by (simp_all add: observe_hedge observe_frame stale_locals stale_fields)
  have below: "price_of_tick source_config 0 \<le> price_of_tick source_config 60"
    using price_of_tick_strict_mono [of 0 60 source_config] by simp
  have r: "rebalance_positions source_config ?v ?s1
           = ?s1\<lparr> outside_x := 0, outside_y := 0,
                  base_lower_bound_tick := - 300, base_upper_bound_tick := 300,
                  base_liquidity := 1 / (1000000 - (10001 / 10000) powi (- 150) * 1000000),
                  limit_lower_bound_tick := 60, limit_upper_bound_tick := 360,
                  limit_liquidity := (1 - 1 / (1000000 * 1000000))
                     / (1 / sqrt (price_of_tick source_config 60)
                        - 1 / sqrt (price_of_tick source_config 360)) \<rparr>"
    unfolding rebalance_positions_unfold
    using assms
    by (simp only: Let_def s1 stale_locals stale_decision observe_ticks stale_base_mint
        stale_limit_bounds mint_position_below [OF below]
        fst_conv snd_conv add_0_right add_0_left diff_self if_False
        insert_iff empty_iff option.inject reason.distinct simp_thms)
  show "base_lower_bound_tick (next_state source_config i 0 [] stale_limit_state) = - 300"
    and "base_upper_bound_tick (next_state source_config i 0 [] stale_limit_state) = 300"
    and "base_liquidity (next_state source_config i 0 [] stale_limit_state)
         = 1 / (1000000 - (10001 / 10000) powi (- 150) * 1000000)"
    and "limit_lower_bound_tick (next_state source_config i 0 [] stale_limit_state) = 60"
    and "limit_upper_bound_tick (next_state source_config i 0 [] stale_limit_state) = 360"
    and "limit_liquidity (next_state source_config i 0 [] stale_limit_state)
         = (1 - 1 / (1000000 * 1000000))
           / (1 / sqrt (price_of_tick source_config 60)
              - 1 / sqrt (price_of_tick source_config 360))"
    and "outside_x (next_state source_config i 0 [] stale_limit_state) = 0"
    and "outside_y (next_state source_config i 0 [] stale_limit_state) = 0"
    unfolding next_state_rebalanced [OF stale_decision(1) [OF assms]] r
    by simp_all
qed

lemma stale_base_liquidity_pos:
  "(0::real) < 1 / (1000000 - (10001 / 10000) powi (- 150) * 1000000)"
proof -
  have "(10001 / 10000 :: real) powi (- 150) < (10001 / 10000) powi 0"
    by (rule power_int_strict_increasing) simp_all
  then have "(10001 / 10000 :: real) powi (- 150) * 1000000 < 1 * 1000000"
    by (intro mult_strict_right_mono) simp_all
  then show ?thesis
    by (simp only: zero_less_divide_1_iff diff_gt_0_iff_gt mult_1)
qed

section \<open>The claims about an iteration\<close>



text \<open>
  Claim C3, as amended. With \<open>lowerTrigger = lowerBound - lowerOffset\<close> and
  \<open>upperTrigger = upperBound + upperOffset\<close> (offsets of either sign), each position is
  reported triggered if and only if the pool tick lies outside the half-open interval
  \<open>[lowerTrigger, upperTrigger)\<close>. It is reported triggered at \<open>lowerTrigger - 1\<close> and at
  \<open>upperTrigger\<close>; it is reported not triggered at \<open>lowerTrigger\<close> and at
  \<open>upperTrigger - 1\<close> whenever \<open>lowerTrigger < upperTrigger\<close>. When negative offsets
  leave the interval empty, every tick is outside it, \<open>lowerTrigger\<close> included.
\<close>

theorem trigger_band_half_open:
  "base_lower_trigger_tick (fst (observe c i tick sw s))
     = base_lower_bound_tick s - base_lower_trigger_ticks c
   \<and> base_upper_trigger_tick (fst (observe c i tick sw s))
     = base_upper_bound_tick s + base_upper_trigger_ticks c
   \<and> limit_lower_trigger_tick (fst (observe c i tick sw s))
     = limit_lower_bound_tick s - limit_trigger_ticks c
   \<and> limit_upper_trigger_tick (fst (observe c i tick sw s))
     = limit_upper_bound_tick s + limit_trigger_ticks c
   \<and> (base_triggered (fst (observe c i tick sw s))
        \<longleftrightarrow> tick \<notin> {base_lower_bound_tick s - base_lower_trigger_ticks c
                      ..< base_upper_bound_tick s + base_upper_trigger_ticks c})
   \<and> (limit_triggered (fst (observe c i tick sw s))
        \<longleftrightarrow> tick \<notin> {limit_lower_bound_tick s - limit_trigger_ticks c
                      ..< limit_upper_bound_tick s + limit_trigger_ticks c})
   \<and> triggered lower_trigger upper_trigger (lower_trigger - 1)
   \<and> triggered lower_trigger upper_trigger upper_trigger
   \<and> (lower_trigger < upper_trigger \<longrightarrow>
        \<not> triggered lower_trigger upper_trigger lower_trigger
        \<and> \<not> triggered lower_trigger upper_trigger (upper_trigger - 1))"
  by (simp add: observe_ticks triggered_def)

theorem trigger_band_half_open_witness:
  "(- 270 :: int) < 270
   \<and> \<not> triggered (- 270) 270 (- 270) \<and> \<not> triggered (- 270) 270 (270 - 1)
   \<and> triggered (- 270) 270 (- 270 - 1) \<and> triggered (- 270) 270 270
   \<and> base_lower_trigger_tick (fst (observe source_config 1 0 [] quiet_state)) = - 270
   \<and> base_upper_trigger_tick (fst (observe source_config 1 0 [] quiet_state)) = 270
   \<and> \<not> base_triggered (fst (observe source_config 1 0 [] quiet_state))"
  using trigger_band_half_open [of source_config 1 0 "[]" quiet_state "- 270" 270]
  by (simp add: quiet_state_def source_config_def)

theorem trigger_at_lower_trigger_counterexample:
  "base_lower_bound_tick narrow_state < base_upper_bound_tick narrow_state
   \<and> base_lower_trigger_tick (fst (observe source_config 1 30 [] narrow_state)) = 30
   \<and> pool_tick (fst (observe source_config 1 30 [] narrow_state)) = 30
   \<and> base_triggered (fst (observe source_config 1 30 [] narrow_state))
   \<and> base_lower_trigger_tick (fst (observe source_config 0 30 [] initial_state)) = 30
   \<and> pool_tick (fst (observe source_config 0 30 [] initial_state)) = 30
   \<and> base_triggered (fst (observe source_config 0 30 [] initial_state))"
  by (simp add: observe_ticks narrow_state_def initial_state_def source_fields triggered_def)

text \<open>
  Claim C4, as amended. When \<^verbatim>\<open>delta/borrowed\<close> is evaluated with a zero borrowed balance
  (as in the first iteration, before the hedge is seeded), the division is not guarded and
  no error is raised: the quotient is \<open>nan\<close> when \<open>delta\<close> is \<open>0\<close> and an infinity of the
  sign of \<open>delta\<close> otherwise, the two threshold comparisons are evaluated on it (both
  false on \<open>nan\<close>, giving target position \<open>0\<close>), and the iteration completes.
\<close>

theorem zero_borrowed_ratio_unguarded:
  assumes "spacing c \<noteq> 0" and "borrowed s = 0"
  shows "backtest_step c i tick sw s
           = Inr (fst (observe c i tick sw s), next_state c i tick sw s)
    \<and> np_divide (delta (fst (observe c i tick sw s))) (borrowed s)
        = (if delta (fst (observe c i tick sw s)) = 0 then NaN
           else if 0 < delta (fst (observe c i tick sw s)) then PosInf else NegInf)
    \<and> target_position (fst (observe c i tick sw s))
        = (if delta (fst (observe c i tick sw s)) = 0 then 0
           else if 0 < delta (fst (observe c i tick sw s)) then - 1 else 1)"
  using assms target_position_zero_borrowed [OF assms(2), of c i tick sw]
  by (simp add: backtest_step_def np_divide_def)

theorem zero_borrowed_ratio_unguarded_witness:
  "spacing source_config \<noteq> 0 \<and> borrowed initial_state = 0
   \<and> backtest_step source_config 0 0 [] initial_state
       = Inr (fst (observe source_config 0 0 [] initial_state),
              next_state source_config 0 0 [] initial_state)
   \<and> target_position (fst (observe source_config 0 0 [] initial_state)) = 0"
proof -
  have h1: "spacing source_config \<noteq> 0" by (rule source_spacing)
  have h2: "borrowed initial_state = 0" by (simp add: initial_state_def)
  show ?thesis
    using zero_borrowed_ratio_unguarded [OF h1 h2, of 0 0 "[]"] h1 h2
    by (simp add: initial_delta)
qed

theorem first_step_no_error_counterexample:
  "borrowed initial_state = 0
   \<and> np_divide (delta (fst (observe source_config 0 0 [] initial_state)))
        (borrowed initial_state) = NaN
   \<and> backtest_step source_config 0 0 [] initial_state
       = Inr (fst (observe source_config 0 0 [] initial_state),
              next_state source_config 0 0 [] initial_state)
   \<and> target_position (fst (observe source_config 0 0 [] initial_state)) = 0
   \<and> reason (fst (observe source_config 0 0 [] initial_state)) = Some Initialization"
proof -
  have b: "borrowed initial_state = 0" by (simp add: initial_state_def)
  have t: "target_position (fst (observe source_config 0 0 [] initial_state)) = 0"
    using target_position_zero_borrowed [OF b, of source_config 0 0 "[]"]
    by (simp add: initial_delta)
  show ?thesis
    using b t backtest_step_Inr [OF source_spacing, of 0 0 "[]" initial_state]
    by (simp add: initial_delta np_divide_def observe_decision)
qed

text \<open>
  Claim C5. The recorded reason is what evaluating \<open>limit_trigger\<close>, then
  \<open>base_trigger\<close>, then \<open>delta\<close>, then \<open>initialization\<close> leaves, each later one
  overwriting the earlier: \<open>delta\<close> overrides \<open>base_trigger\<close> overrides
  \<open>limit_trigger\<close>, iteration \<open>0\<close> always records \<open>initialization\<close>, and
  \<open>rebalance\<close> holds exactly when at least one condition does.
\<close>

theorem recorded_reason_priority:
  "reason (fst (observe c i tick sw s))
     = (if i = 0 then Some Initialization
        else if current_position (fst (observe c i tick sw s))
                 \<noteq> target_position (fst (observe c i tick sw s)) then Some Delta
        else if base_triggered (fst (observe c i tick sw s)) then Some Base_trigger
        else if limit_triggered (fst (observe c i tick sw s)) then Some Limit_trigger
        else None)
   \<and> rebalance (fst (observe c i tick sw s))
     = (limit_triggered (fst (observe c i tick sw s))
        \<or> base_triggered (fst (observe c i tick sw s))
        \<or> current_position (fst (observe c i tick sw s))
            \<noteq> target_position (fst (observe c i tick sw s))
        \<or> i = 0)
   \<and> check_for_rebalance limit_trig base_trig position_differs first_step
     = (limit_trig \<or> base_trig \<or> position_differs \<or> first_step,
        if first_step then Some Initialization
        else if position_differs then Some Delta
        else if base_trig then Some Base_trigger
        else if limit_trig then Some Limit_trigger
        else None)"
  using observe_decision [of c i tick sw s] check_for_rebalance_eq by simp

theorem recorded_reason_priority_witness:
  "reason (fst (observe source_config 0 0 [] initial_state)) = Some Initialization
   \<and> rebalance (fst (observe source_config 0 0 [] initial_state))
   \<and> check_for_rebalance True True True False = (True, Some Delta)
   \<and> check_for_rebalance True True False False = (True, Some Base_trigger)
   \<and> check_for_rebalance True False False False = (True, Some Limit_trigger)
   \<and> check_for_rebalance False False False False = (False, None)"
  using recorded_reason_priority [of source_config 0 0 "[]" initial_state True True True False]
    recorded_reason_priority [of source_config 0 0 "[]" initial_state True True False False]
    recorded_reason_priority [of source_config 0 0 "[]" initial_state True False False False]
    recorded_reason_priority [of source_config 0 0 "[]" initial_state False False False False]
  by simp

text \<open>
  Claim C6, as amended. A rebalance whose recorded reason is \<open>limit_trigger\<close> leaves the
  base position's lower and upper bound ticks as they were. The base position is burned
  and minted again at those bounds from the whole reserve (line 168), so its liquidity is
  derived anew; the limit position's bounds (lines 173--182) and liquidity are derived
  from what the base mint leaves.
\<close>

theorem limit_trigger_rebalance:
  assumes "backtest_step c i tick sw s = Inr (v, s')"
    and "reason v = Some Limit_trigger"
  shows "let ox = outside_x s + fees_x v + (base_x v + limit_x v);
             oy = outside_y s + fees_y v + (base_y v + limit_y v);
             bm = mint_position ox oy (price_of_tick c (base_lower_bound_tick s))
                    (price_of_tick c (base_upper_bound_tick s)) (pool_price v);
             rx = ox - fst (snd bm);
             ry = oy - snd (snd bm);
             ll = (if ry = 0 then (tick div spacing c) * spacing c + spacing c
                   else min ((((- 887272) div spacing c) * spacing c + spacing c)
                               * of_bool (target_position v = - 1)
                             + (((tick - limit_bound_ticks c) div spacing c) * spacing c)
                               * of_bool (target_position v \<in> {0, 1}))
                            ((tick div spacing c) * spacing c - spacing c));
             lu = (if ry = 0
                   then max ((((tick + limit_bound_ticks c) div spacing c) * spacing c)
                               * of_bool (target_position v \<in> {- 1, 0})
                             + ((887272 div spacing c) * spacing c)
                               * of_bool (target_position v = 1))
                            ((tick div spacing c) * spacing c + 2 * spacing c)
                   else (tick div spacing c) * spacing c);
             lm = mint_position rx ry (price_of_tick c ll) (price_of_tick c lu) (pool_price v)
         in rebalance v
          \<and> base_lower_bound_tick s' = base_lower_bound_tick s
          \<and> base_upper_bound_tick s' = base_upper_bound_tick s
          \<and> base_liquidity s' = fst bm
          \<and> limit_lower_bound_tick s' = ll
          \<and> limit_upper_bound_tick s' = lu
          \<and> limit_liquidity s' = fst lm
          \<and> outside_x s' = rx - fst (snd lm)
          \<and> outside_y s' = ry - snd (snd lm)"
proof -
  note d = backtest_step_InrD [OF assms(1)]
  let ?v = "fst (observe c i tick sw s)" and ?s1 = "snd (observe c i tick sw s)"
  have r: "reason ?v = Some Limit_trigger"
    using assms(2) d(1) by simp
  have rb: "rebalance ?v"
    by (rule reason_imp_rebalance [OF r])
  have i: "i \<noteq> 0"
  proof
    assume "i = 0"
    with r first_step_decision(2) [of c tick sw s] show False by simp
  qed
  have n: "s' = (rebalance_positions c ?v ?s1)
             \<lparr> lent := lent ?s1 * (1 + lending_apy c) powr (1 / (365 * 24 * 12)),
                borrowed := borrowed ?s1 * (1 + borrowing_apy c) powr (1 / (365 * 24 * 12)) \<rparr>"
    unfolding d(2) by (rule next_state_rebalanced [OF rb])
  show ?thesis
    unfolding n d(1) rebalance_positions_unfold new_limit_bounds_explicit
    using rb r i
    by (simp add: Let_def observe_frame observe_hedge observe_ticks)
qed

theorem limit_trigger_rebalance_witness:
  "backtest_step source_config 1 0 [] stale_limit_state
     = Inr (fst (observe source_config 1 0 [] stale_limit_state),
            next_state source_config 1 0 [] stale_limit_state)
   \<and> reason (fst (observe source_config 1 0 [] stale_limit_state)) = Some Limit_trigger
   \<and> rebalance (fst (observe source_config 1 0 [] stale_limit_state))
   \<and> base_lower_bound_tick (next_state source_config 1 0 [] stale_limit_state) = - 300
   \<and> base_upper_bound_tick (next_state source_config 1 0 [] stale_limit_state) = 300
   \<and> base_liquidity (next_state source_config 1 0 [] stale_limit_state)
       = 1 / (1000000 - (10001 / 10000) powi (- 150) * 1000000)
   \<and> limit_lower_bound_tick (next_state source_config 1 0 [] stale_limit_state) = 60
   \<and> limit_upper_bound_tick (next_state source_config 1 0 [] stale_limit_state) = 360
   \<and> outside_x (next_state source_config 1 0 [] stale_limit_state) = 0
   \<and> outside_y (next_state source_config 1 0 [] stale_limit_state) = 0"
proof -
  have h1: "backtest_step source_config 1 0 [] stale_limit_state
     = Inr (fst (observe source_config 1 0 [] stale_limit_state),
            next_state source_config 1 0 [] stale_limit_state)"
    by (rule backtest_step_Inr [OF source_spacing])
  have h2: "reason (fst (observe source_config 1 0 [] stale_limit_state)) = Some Limit_trigger"
    by (rule stale_decision(2)) simp
  have below: "price_of_tick source_config 0 \<le> price_of_tick source_config 60"
    using price_of_tick_strict_mono [of 0 60 source_config] by simp
  note t = limit_trigger_rebalance [OF h1 h2]
  have "rebalance (fst (observe source_config 1 0 [] stale_limit_state))
   \<and> base_lower_bound_tick (next_state source_config 1 0 [] stale_limit_state) = - 300
   \<and> base_upper_bound_tick (next_state source_config 1 0 [] stale_limit_state) = 300
   \<and> base_liquidity (next_state source_config 1 0 [] stale_limit_state)
       = 1 / (1000000 - (10001 / 10000) powi (- 150) * 1000000)
   \<and> limit_lower_bound_tick (next_state source_config 1 0 [] stale_limit_state) = 60
   \<and> limit_upper_bound_tick (next_state source_config 1 0 [] stale_limit_state) = 360
   \<and> outside_x (next_state source_config 1 0 [] stale_limit_state) = 0
   \<and> outside_y (next_state source_config 1 0 [] stale_limit_state) = 0"
    using t stale_next_state [of 1] stale_decision [of 1] by simp
  with h1 h2 show ?thesis by blast
qed

theorem limit_trigger_remints_base_counterexample:
  "backtest_step source_config 1 0 [] stale_limit_state
     = Inr (fst (observe source_config 1 0 [] stale_limit_state),
            next_state source_config 1 0 [] stale_limit_state)
   \<and> reason (fst (observe source_config 1 0 [] stale_limit_state)) = Some Limit_trigger
   \<and> base_liquidity stale_limit_state = 0
   \<and> base_liquidity (next_state source_config 1 0 [] stale_limit_state)
       = 1 / (1000000 - (10001 / 10000) powi (- 150) * 1000000)
   \<and> 0 < base_liquidity (next_state source_config 1 0 [] stale_limit_state)
   \<and> base_liquidity (next_state source_config 1 0 [] stale_limit_state)
       \<noteq> base_liquidity stale_limit_state"
proof -
  have h1: "backtest_step source_config 1 0 [] stale_limit_state
     = Inr (fst (observe source_config 1 0 [] stale_limit_state),
            next_state source_config 1 0 [] stale_limit_state)"
    by (rule backtest_step_Inr [OF source_spacing])
  have h2: "reason (fst (observe source_config 1 0 [] stale_limit_state)) = Some Limit_trigger"
    by (rule stale_decision(2)) simp
  have l: "base_liquidity (next_state source_config 1 0 [] stale_limit_state)
       = 1 / (1000000 - (10001 / 10000) powi (- 150) * 1000000)"
    by (rule stale_next_state(3)) simp
  have p: "0 < base_liquidity (next_state source_config 1 0 [] stale_limit_state)"
    unfolding l by (rule stale_base_liquidity_pos)
  have z: "base_liquidity stale_limit_state = 0"
    by (rule stale_fields)
  have n: "base_liquidity (next_state source_config 1 0 [] stale_limit_state)
       \<noteq> base_liquidity stale_limit_state"
    using p z by linarith
  show ?thesis
    using h1 h2 z l p n by blast
qed

text \<open>
  Claim C7, as amended. A rebalance with recorded reason \<open>base_trigger\<close>, \<open>delta\<close> or
  \<open>initialization\<close> recomputes the base bounds from the target position: at \<open>+1\<close> from
  \<open>pool_tick - base_lower_bound_ticks\<close> rounded down to the spacing up to the largest
  aligned tick \<open>887272 div spacing * spacing\<close>; at \<open>-1\<close> from the smallest aligned tick
  \<open>(- 887272) div spacing * spacing + spacing\<close> up to \<open>pool_tick + base_upper_bound_ticks\<close>
  rounded down to the spacing; at \<open>0\<close> from \<open>pool_tick - base_lower_bound_ticks\<close> to
  \<open>pool_tick + base_upper_bound_ticks\<close>, both rounded down to the spacing.
\<close>

theorem recomputed_base_bounds:
  assumes "backtest_step c i tick sw s = Inr (v, s')"
    and "reason v \<in> {Some Base_trigger, Some Delta, Some Initialization}"
  shows "target_position v \<in> {- 1, 0, 1}
    \<and> (target_position v = 1 \<longrightarrow>
          base_lower_bound_tick s' = ((tick - base_lower_bound_ticks c) div spacing c) * spacing c
        \<and> base_upper_bound_tick s' = (887272 div spacing c) * spacing c)
    \<and> (target_position v = - 1 \<longrightarrow>
          base_lower_bound_tick s' = ((- 887272) div spacing c) * spacing c + spacing c
        \<and> base_upper_bound_tick s' = ((tick + base_upper_bound_ticks c) div spacing c) * spacing c)
    \<and> (target_position v = 0 \<longrightarrow>
          base_lower_bound_tick s' = ((tick - base_lower_bound_ticks c) div spacing c) * spacing c
        \<and> base_upper_bound_tick s' = ((tick + base_upper_bound_ticks c) div spacing c) * spacing c)"
proof -
  note d = backtest_step_InrD [OF assms(1)]
  have r: "reason (fst (observe c i tick sw s))
           \<in> {Some Base_trigger, Some Delta, Some Initialization}"
    using assms(2) d(1) by simp
  then have rb: "rebalance (fst (observe c i tick sw s))"
    using reason_imp_rebalance by blast
  have b: "(base_lower_bound_tick s', base_upper_bound_tick s')
           = new_base_bounds c tick (target_position v)"
    unfolding d(1,2) using rb r rebalance_positions_base_bounds
      [of c "fst (observe c i tick sw s)" "snd (observe c i tick sw s)"]
    by (simp add: next_state_bounds observe_ticks)
  have t: "target_position v \<in> {- 1, 0, 1}"
    unfolding d(1) by (rule target_position_range)
  have "target_position v = 1 \<longrightarrow>
          base_lower_bound_tick s' = ((tick - base_lower_bound_ticks c) div spacing c) * spacing c
        \<and> base_upper_bound_tick s' = (887272 div spacing c) * spacing c"
    using b by (simp add: new_base_bounds_def)
  moreover have "target_position v = - 1 \<longrightarrow>
          base_lower_bound_tick s' = ((- 887272) div spacing c) * spacing c + spacing c
        \<and> base_upper_bound_tick s' = ((tick + base_upper_bound_ticks c) div spacing c) * spacing c"
    using b by (simp add: new_base_bounds_def)
  moreover have "target_position v = 0 \<longrightarrow>
          base_lower_bound_tick s' = ((tick - base_lower_bound_ticks c) div spacing c) * spacing c
        \<and> base_upper_bound_tick s' = ((tick + base_upper_bound_ticks c) div spacing c) * spacing c"
    using b by (simp add: new_base_bounds_def)
  ultimately show ?thesis using t by blast
qed

theorem recomputed_base_bounds_witness:
  "backtest_step source_config 1 0 [] short_state
     = Inr (fst (observe source_config 1 0 [] short_state),
            next_state source_config 1 0 [] short_state)
   \<and> reason (fst (observe source_config 1 0 [] short_state)) = Some Delta
   \<and> target_position (fst (observe source_config 1 0 [] short_state)) = 1
   \<and> base_lower_bound_tick (next_state source_config 1 0 [] short_state) = - 300
   \<and> base_upper_bound_tick (next_state source_config 1 0 [] short_state) = 887220"
proof -
  have h1: "backtest_step source_config 1 0 [] short_state
     = Inr (fst (observe source_config 1 0 [] short_state),
            next_state source_config 1 0 [] short_state)"
    by (rule backtest_step_Inr [OF source_spacing])
  have h2: "reason (fst (observe source_config 1 0 [] short_state))
            \<in> {Some Base_trigger, Some Delta, Some Initialization}"
    by (simp add: short_decision)
  show ?thesis
    using recomputed_base_bounds [OF h1 h2] h1
    by (simp add: short_decision short_positions source_fields)
qed

theorem long_bias_lower_bound_counterexample:
  "backtest_step source_config 1 0 [] short_state
     = Inr (fst (observe source_config 1 0 [] short_state),
            next_state source_config 1 0 [] short_state)
   \<and> rebalance (fst (observe source_config 1 0 [] short_state))
   \<and> reason (fst (observe source_config 1 0 [] short_state)) = Some Delta
   \<and> target_position (fst (observe source_config 1 0 [] short_state)) = 1
   \<and> base_lower_bound_tick (next_state source_config 1 0 [] short_state) = - 300
   \<and> ((0 + base_upper_bound_ticks source_config) div spacing source_config)
        * spacing source_config = 300
   \<and> base_lower_bound_tick (next_state source_config 1 0 [] short_state)
       \<noteq> ((0 + base_upper_bound_ticks source_config) div spacing source_config)
           * spacing source_config"
proof -
  have b: "base_lower_bound_tick (next_state source_config 1 0 [] short_state) = - 300"
    using short_next_base_bounds [of 1] by simp
  have e: "((0 + base_upper_bound_ticks source_config) div spacing source_config)
        * spacing source_config = 300"
    by (simp add: source_fields)
  show ?thesis
    using b e backtest_step_Inr [OF source_spacing, of 1 0 "[]" short_state]
    by (simp add: short_decision short_positions)
qed

text \<open>
  Claim C9. An iteration with \<open>rebalance = False\<close> (reason \<open>None\<close>) carries both
  positions' bound ticks and liquidity over unchanged, adds exactly the iteration's
  attributed fees to \<open>outside_x\<close> and \<open>outside_y\<close>, and compounds \<open>lent\<close> and
  \<open>borrowed\<close>.
\<close>

theorem no_rebalance_frame:
  assumes "backtest_step c i tick sw s = Inr (v, s')" and "\<not> rebalance v"
  shows "reason v = None
    \<and> base_lower_bound_tick s' = base_lower_bound_tick s
    \<and> base_upper_bound_tick s' = base_upper_bound_tick s
    \<and> base_liquidity s' = base_liquidity s
    \<and> limit_lower_bound_tick s' = limit_lower_bound_tick s
    \<and> limit_upper_bound_tick s' = limit_upper_bound_tick s
    \<and> limit_liquidity s' = limit_liquidity s
    \<and> outside_x s' = outside_x s + fees_x v
    \<and> outside_y s' = outside_y s + fees_y v
    \<and> lent s' = lent s * (1 + lending_apy c) powr (1 / (365 * 24 * 12))
    \<and> borrowed s' = borrowed s * (1 + borrowing_apy c) powr (1 / (365 * 24 * 12))"
proof -
  note d = backtest_step_InrD [OF assms(1)]
  have nr: "\<not> rebalance (fst (observe c i tick sw s))"
    using assms(2) d(1) by simp
  then have i: "i \<noteq> 0"
    by (simp add: observe_decision)
  have r: "reason (fst (observe c i tick sw s)) = None"
    using nr by (simp add: observe_decision)
  have n: "next_state c i tick sw s
           = (snd (observe c i tick sw s))
               \<lparr> lent := lent (snd (observe c i tick sw s))
                           * (1 + lending_apy c) powr (1 / (365 * 24 * 12)),
                 borrowed := borrowed (snd (observe c i tick sw s))
                           * (1 + borrowing_apy c) powr (1 / (365 * 24 * 12)) \<rparr>"
    using nr by (simp add: next_state_def Let_def split_def)
  show ?thesis
    unfolding d(1,2) n using i r by (simp add: observe_frame observe_hedge)
qed

theorem no_rebalance_frame_witness:
  "backtest_step source_config 1 0 [] quiet_state
     = Inr (fst (observe source_config 1 0 [] quiet_state),
            next_state source_config 1 0 [] quiet_state)
   \<and> \<not> rebalance (fst (observe source_config 1 0 [] quiet_state))
   \<and> base_lower_bound_tick (next_state source_config 1 0 [] quiet_state) = - 300
   \<and> base_upper_bound_tick (next_state source_config 1 0 [] quiet_state) = 300
   \<and> limit_lower_bound_tick (next_state source_config 1 0 [] quiet_state) = - 60
   \<and> limit_upper_bound_tick (next_state source_config 1 0 [] quiet_state) = 0
   \<and> base_liquidity (next_state source_config 1 0 [] quiet_state) = 0
   \<and> limit_liquidity (next_state source_config 1 0 [] quiet_state) = 0"
proof -
  have h1: "backtest_step source_config 1 0 [] quiet_state
     = Inr (fst (observe source_config 1 0 [] quiet_state),
            next_state source_config 1 0 [] quiet_state)"
    by (rule backtest_step_Inr [OF source_spacing])
  have h2: "\<not> rebalance (fst (observe source_config 1 0 [] quiet_state))"
    by (simp add: quiet_decision)
  show ?thesis
    using no_rebalance_frame [OF h1 h2] h1 h2 by (simp add: quiet_state_def)
qed

text \<open>
  Claim C10. The first iteration sets \<open>lent = start_value * 2 / 3\<close> and
  \<open>borrowed = lent / (2 * pool_price)\<close>. In every iteration \<open>i \<ge> 1\<close>, with or without
  a rebalance and whatever its reason, the row written has
  \<open>lent * (1 + lending_apy) powr (1 / (365 * 24 * 12))\<close> and
  \<open>borrowed * (1 + borrowing_apy) powr (1 / (365 * 24 * 12))\<close>: no rebalance touches the
  two balances.
\<close>

theorem hedge_only_compounds:
  assumes "backtest_step c i tick sw s = Inr (v, s')"
  shows "(1 \<le> i \<longrightarrow>
            lent s' = lent s * (1 + lending_apy c) powr (1 / (365 * 24 * 12))
          \<and> borrowed s' = borrowed s * (1 + borrowing_apy c) powr (1 / (365 * 24 * 12)))
       \<and> (i = 0 \<longrightarrow>
            lent s' = start_value c * 2 / 3 * (1 + lending_apy c) powr (1 / (365 * 24 * 12))
          \<and> borrowed s' = start_value c * 2 / 3 / (2 * pool_price v)
                            * (1 + borrowing_apy c) powr (1 / (365 * 24 * 12)))"
proof -
  note d = backtest_step_InrD [OF assms]
  show ?thesis
    unfolding d(1,2) by (simp add: next_state_hedge observe_hedge observe_ticks)
qed

theorem hedge_only_compounds_witness:
  "backtest_step source_config 1 0 [] short_state
     = Inr (fst (observe source_config 1 0 [] short_state),
            next_state source_config 1 0 [] short_state)
   \<and> rebalance (fst (observe source_config 1 0 [] short_state))
   \<and> reason (fst (observe source_config 1 0 [] short_state)) = Some Delta
   \<and> lent (next_state source_config 1 0 [] short_state)
       = lent short_state * (1 + lending_apy source_config) powr (1 / (365 * 24 * 12))
   \<and> borrowed (next_state source_config 1 0 [] short_state)
       = borrowed short_state * (1 + borrowing_apy source_config) powr (1 / (365 * 24 * 12))"
proof -
  have h1: "backtest_step source_config 1 0 [] short_state
     = Inr (fst (observe source_config 1 0 [] short_state),
            next_state source_config 1 0 [] short_state)"
    by (rule backtest_step_Inr [OF source_spacing])
  show ?thesis
    using hedge_only_compounds [OF h1] h1 by (simp add: short_decision)
qed

end
